theory Spec2Isabelle
  imports Main "HOL-Library.AList"
begin

section \<open>The bugzilla plugin of prow: data model\<close>

text \<open>
  A shallow embedding of \<^verbatim>\<open>prow/plugins/bugzilla/bugzilla.go\<close>. Go strings are byte
  strings (\<open>string\<close>), Go's \<open>int\<close> values that are only compared and printed are
  \<open>int\<close>, a nil-able pointer is an \<open>option\<close>.
\<close>

datatype error = Error (message: string)

text \<open>\<^verbatim>\<open>plugins.BugzillaBugState\<close>: only its fields are declared here, its methods are
  collaborators (see \<open>externals\<close>).\<close>

record BugzillaBugState =
  Status :: string
  Resolution :: string

record User =
  Email :: string

text \<open>\<^verbatim>\<open>bugzilla.Bug\<close>, the fields this plugin reads.\<close>

record Bug =
  ID :: int
  IsOpen :: bool
  Status :: string
  Resolution :: string
  TargetRelease :: "string list"
  DependsOn :: "int list"
  QAContactDetail :: "User option"

record BugUpdate =
  Status :: string
  Resolution :: string

text \<open>\<^verbatim>\<open>plugins.BugzillaBranchOptions\<close>: every field is a pointer in the source.\<close>

record BugzillaBranchOptions =
  ValidateByDefault :: "bool option"
  IsOpen :: "bool option"
  TargetRelease :: "string option"
  ValidStates :: "BugzillaBugState list option"
  DependentBugStates :: "BugzillaBugState list option"
  DependentBugTargetRelease :: "string option"
  StateAfterValidation :: "BugzillaBugState option"
  AddExternalLink :: "bool option"
  StateAfterMerge :: "BugzillaBugState option"

text \<open>
  The parts of the repository and of Go's library that this file calls and that are
  declared elsewhere: the methods of \<^verbatim>\<open>BugzillaBugState\<close> (\<^verbatim>\<open>Matches\<close>,
  \<^verbatim>\<open>AsBugUpdate\<close>, and \<^verbatim>\<open>String\<close> as used by the verb \<^verbatim>\<open>%s\<close>),
  \<^verbatim>\<open>bugzilla.PrettyStatus\<close>, \<^verbatim>\<open>bugzilla.IsNotFound\<close>,
  \<^verbatim>\<open>plugins.FormatResponseRaw\<close>, the label names \<^verbatim>\<open>labels.ValidBug\<close> and
  \<^verbatim>\<open>labels.InvalidBug\<close>, and the verb \<^verbatim>\<open>%q\<close> of \<^verbatim>\<open>fmt\<close> on a string. They are
  parameters of the model. Methods with a pointer receiver are called on nil pointers
  too, so they take an \<open>option\<close>.
\<close>

record externals =
  Matches :: "BugzillaBugState \<Rightarrow> Bug \<Rightarrow> bool"
  AsBugUpdate :: "BugzillaBugState option \<Rightarrow> Bug option \<Rightarrow> BugUpdate option"
  StateString :: "BugzillaBugState option \<Rightarrow> string"
  PrettyStatus :: "string \<Rightarrow> string \<Rightarrow> string"
  IsNotFound :: "error option \<Rightarrow> bool"
  FormatResponseRaw :: "string \<Rightarrow> string \<Rightarrow> string \<Rightarrow> string \<Rightarrow> string"
  ValidBug :: string
  InvalidBug :: string
  Quote :: "string \<Rightarrow> string"

section \<open>Formatting\<close>

text \<open>The verb \<^verbatim>\<open>%d\<close> on an \<open>int\<close>.\<close>

fun digits :: "nat \<Rightarrow> string" where
  "digits n =
     (if n < 10 then [char_of (48 + n)]
      else digits (n div 10) @ [char_of (48 + n mod 10)])"

declare digits.simps [simp del]

definition itoa :: "int \<Rightarrow> string" where
  "itoa i = (if i < 0 then CHR ''-'' # digits (nat (- i)) else digits (nat i))"

text \<open>\<^verbatim>\<open>strings.Join\<close>.\<close>

fun Join :: "string list \<Rightarrow> string \<Rightarrow> string" where
  "Join [] sep = []"
| "Join [x] sep = x"
| "Join (x # y # ys) sep = x @ sep @ Join (y # ys) sep"

text \<open>The constant \<^verbatim>\<open>bugLink\<close>, applied to its three arguments by \<^verbatim>\<open>fmt.Sprintf\<close>.\<close>

definition bugLink :: "int \<Rightarrow> string \<Rightarrow> int \<Rightarrow> string" where
  "bugLink i endpoint j =
     ''[Bugzilla bug '' @ itoa i @ ''](''  @ endpoint @ ''/show_bug.cgi?id='' @ itoa j @ '')''"

section \<open>Bug validation\<close>

fun bugMatchesStates :: "externals \<Rightarrow> Bug \<Rightarrow> BugzillaBugState list \<Rightarrow> bool" where
  "bugMatchesStates x bug [] = False"
| "bugMatchesStates x bug (state # states) =
     (if Matches x state bug then True else bugMatchesStates x bug states)"

definition prettyStates :: "externals \<Rightarrow> BugzillaBugState list \<Rightarrow> string list" where
  "prettyStates x statuses =
     map (\<lambda>status. PrettyStatus x (BugzillaBugState.Status status)
                      (BugzillaBugState.Resolution status)) statuses"

text \<open>
  \<^verbatim>\<open>validateBug\<close> updates three variables, \<^verbatim>\<open>valid\<close>, \<^verbatim>\<open>validations\<close> and
  \<^verbatim>\<open>errors\<close>, in six consecutive blocks. The state is the triple in the order the
  function returns it; each block is one function on it.
\<close>

type_synonym verdict = "bool \<times> string list \<times> string list"

text \<open>Lines 554 to 573: the open/closed requirement.\<close>

definition checkIsOpen :: "Bug \<Rightarrow> BugzillaBranchOptions \<Rightarrow> verdict \<Rightarrow> verdict" where
  "checkIsOpen bug options v =
     (case v of (valid, validations, errors) \<Rightarrow>
       (case BugzillaBranchOptions.IsOpen options of
          None \<Rightarrow> v
        | Some isOpen \<Rightarrow>
            if isOpen \<noteq> Bug.IsOpen bug then
              (let not = (if \<not> isOpen then ''not '' else '''');
                   was = (if \<not> isOpen then ''is'' else ''isn't'')
               in (False, validations,
                   errors @ [''expected the bug to '' @ not @ ''be open, but it '' @ was]))
            else
              (let expected = (if \<not> isOpen then ''not open'' else ''open'');
                   was = (if Bug.IsOpen bug then ''is'' else ''isn't'')
               in (valid,
                   validations @ [''bug '' @ was @ '' open, matching expected state (''
                                   @ expected @ '')''],
                   errors))))"

text \<open>Lines 575 to 588: the target release requirement, on the first entry only.\<close>

definition checkTargetRelease ::
  "externals \<Rightarrow> Bug \<Rightarrow> BugzillaBranchOptions \<Rightarrow> verdict \<Rightarrow> verdict" where
  "checkTargetRelease x bug options v =
     (case v of (valid, validations, errors) \<Rightarrow>
       (case BugzillaBranchOptions.TargetRelease options of
          None \<Rightarrow> v
        | Some target \<Rightarrow>
            (case Bug.TargetRelease bug of
               [] \<Rightarrow>
                 (False, validations,
                  errors @ [''expected the bug to target the '' @ Quote x target
                            @ '' release, but no target release was set''])
             | r # _ \<Rightarrow>
                 if target \<noteq> r then
                   (False, validations,
                    errors @ [''expected the bug to target the '' @ Quote x target
                              @ '' release, but it targets '' @ Quote x r @ '' instead''])
                 else
                   (valid,
                    validations @ [''bug target release ('' @ r
                       @ '') matches configured target release for branch ('' @ target @ '')''],
                    errors))))"

text \<open>Lines 590 to 602: the status requirement; the post-validation state is allowed too.\<close>

definition checkValidStates ::
  "externals \<Rightarrow> Bug \<Rightarrow> BugzillaBranchOptions \<Rightarrow> verdict \<Rightarrow> verdict" where
  "checkValidStates x bug options v =
     (case v of (valid, validations, errors) \<Rightarrow>
       (case ValidStates options of
          None \<Rightarrow> v
        | Some validStates \<Rightarrow>
            (let allowed = validStates @
                   (case StateAfterValidation options of None \<Rightarrow> [] | Some s \<Rightarrow> [s])
             in if \<not> bugMatchesStates x bug allowed then
                  (False, validations,
                   errors @ [''expected the bug to be in one of the following states: ''
                     @ Join (prettyStates x allowed) '', '' @ '', but it is ''
                     @ PrettyStatus x (Bug.Status bug) (Bug.Resolution bug) @ '' instead''])
                else
                  (valid,
                   validations @ [''bug is in the state ''
                     @ PrettyStatus x (Bug.Status bug) (Bug.Resolution bug)
                     @ '', which is one of the valid states (''
                     @ Join (prettyStates x allowed) '', '' @ '')''],
                   errors))))"

text \<open>Lines 604 to 615: the loop over the dependents, for their states.\<close>

fun checkDependentStates ::
  "externals \<Rightarrow> string \<Rightarrow> BugzillaBugState list \<Rightarrow> Bug list \<Rightarrow> verdict \<Rightarrow> verdict" where
  "checkDependentStates x endpoint states [] v = v"
| "checkDependentStates x endpoint states (bug # dependents) (valid, validations, errors) =
     checkDependentStates x endpoint states dependents
       (if \<not> bugMatchesStates x bug states then
          (let expected = Join (prettyStates x states) '', '';
               actual = PrettyStatus x (Bug.Status bug) (Bug.Resolution bug)
           in (False, validations,
               errors @ [''expected dependent '' @ bugLink (ID bug) endpoint (ID bug)
                 @ '' to be in one of the following states: '' @ expected
                 @ '', but it is '' @ actual @ '' instead'']))
        else
          (valid,
           validations @ [''dependent bug '' @ bugLink (ID bug) endpoint (ID bug)
             @ '' is in the state '' @ PrettyStatus x (Bug.Status bug) (Bug.Resolution bug)
             @ '', which is one of the valid states (''
             @ Join (prettyStates x states) '', '' @ '')''],
           errors))"

text \<open>Lines 617 to 632: the loop over the dependents, for their target release.\<close>

fun checkDependentTargetRelease ::
  "externals \<Rightarrow> string \<Rightarrow> string \<Rightarrow> Bug list \<Rightarrow> verdict \<Rightarrow> verdict" where
  "checkDependentTargetRelease x endpoint target [] v = v"
| "checkDependentTargetRelease x endpoint target (bug # dependents)
       (valid, validations, errors) =
     checkDependentTargetRelease x endpoint target dependents
       (case Bug.TargetRelease bug of
          [] \<Rightarrow>
            (False, validations,
             errors @ [''expected dependent '' @ bugLink (ID bug) endpoint (ID bug)
               @ '' to target the '' @ Quote x target
               @ '' release, but no target release was set''])
        | r # _ \<Rightarrow>
            if target \<noteq> r then
              (False, validations,
               errors @ [''expected dependent '' @ bugLink (ID bug) endpoint (ID bug)
                 @ '' to target the '' @ Quote x target @ '' release, but it targets ''
                 @ Quote x r @ '' instead''])
            else
              (valid,
               validations @ [''dependent '' @ bugLink (ID bug) endpoint (ID bug)
                 @ '' targets the '' @ Quote x r
                 @ '' release, matching the expected ('' @ target @ '') release''],
               errors))"

text \<open>Lines 634 to 651: no dependents at all, or their presence.\<close>

definition checkDependents ::
  "externals \<Rightarrow> Bug \<Rightarrow> Bug list \<Rightarrow> BugzillaBranchOptions \<Rightarrow> string \<Rightarrow> verdict \<Rightarrow> verdict"
  where
  "checkDependents x bug dependents options endpoint v =
     (case v of (valid, validations, errors) \<Rightarrow>
       if length dependents = 0 then
         (case (DependentBugStates options, DependentBugTargetRelease options) of
            (Some states, Some target) \<Rightarrow>
              (let expected = Join (prettyStates x states) '', ''
               in (False, validations,
                   errors @ [''expected '' @ bugLink (ID bug) endpoint (ID bug)
                     @ '' to depend on a bug targeting the '' @ Quote x target
                     @ '' release and in one of the following states: '' @ expected
                     @ '', but no dependents were found'']))
          | (Some states, None) \<Rightarrow>
              (let expected = Join (prettyStates x states) '', ''
               in (False, validations,
                   errors @ [''expected '' @ bugLink (ID bug) endpoint (ID bug)
                     @ '' to depend on a bug in one of the following states: '' @ expected
                     @ '', but no dependents were found'']))
          | (None, Some target) \<Rightarrow>
              (False, validations,
               errors @ [''expected '' @ bugLink (ID bug) endpoint (ID bug)
                 @ '' to depend on a bug targeting the '' @ Quote x target
                 @ '' release, but no dependents were found''])
          | (None, None) \<Rightarrow> v)
       else (valid, validations @ [''bug has dependents''], errors))"

text \<open>\<^verbatim>\<open>validateBug\<close>, lines 550 to 654.\<close>

definition validateBug ::
  "externals \<Rightarrow> Bug \<Rightarrow> Bug list \<Rightarrow> BugzillaBranchOptions \<Rightarrow> string \<Rightarrow> verdict" where
  "validateBug x bug dependents options endpoint =
     (let v0 = (True, [], []);
          v1 = checkIsOpen bug options v0;
          v2 = checkTargetRelease x bug options v1;
          v3 = checkValidStates x bug options v2;
          v4 = (case DependentBugStates options of
                  None \<Rightarrow> v3
                | Some states \<Rightarrow> checkDependentStates x endpoint states dependents v3);
          v5 = (case DependentBugTargetRelease options of
                  None \<Rightarrow> v4
                | Some target \<Rightarrow> checkDependentTargetRelease x endpoint target dependents v4)
      in checkDependents x bug dependents options endpoint v5)"

section \<open>Extracting the bug id from a title\<close>

text \<open>
  \<^verbatim>\<open>titleMatch = regexp.MustCompile(`(?i)^.*?Bug ([0-9]+):`)\<close>. The search is anchored
  at the start of the text by \<^verbatim>\<open>^\<close>; then \<^verbatim>\<open>.*?\<close> skips as few characters as
  possible, none of them a newline (the flag \<^verbatim>\<open>s\<close> is not set); then come the
  letters of \<^verbatim>\<open>Bug\<close> in either case, one space, the longest run of digits (at least
  one) and a colon. \<^verbatim>\<open>FindStringSubmatch\<close> returns nil when nothing matches;
  otherwise the code reads only the capture group, which is what the model returns.
  Go matches runes and the model matches bytes: every character that the pattern names,
  and the newline, is an ASCII byte, and such a byte never lies inside a longer UTF-8
  sequence, so both find the same capture.
\<close>

definition isDigit :: "char \<Rightarrow> bool" where
  "isDigit c = (c \<in> set ''0123456789'')"

text \<open>The part \<^verbatim>\<open>(?i)Bug ([0-9]+):\<close> of the pattern, at the start of the given text.\<close>

fun matchBug :: "string \<Rightarrow> string option" where
  "matchBug (b # u # g # sp # rest) =
     (if b \<in> set ''Bb'' \<and> u \<in> set ''Uu'' \<and> g \<in> set ''Gg'' \<and> sp = CHR '' '' then
        (let ds = takeWhile isDigit rest in
           if ds \<noteq> [] \<and> (case dropWhile isDigit rest of [] \<Rightarrow> False | c # _ \<Rightarrow> c = CHR '':'')
           then Some ds else None)
      else None)"
| "matchBug _ = None"

fun titleMatch :: "string \<Rightarrow> string option" where
  "titleMatch [] = None"
| "titleMatch (c # cs) =
     (case matchBug (c # cs) of
        Some ds \<Rightarrow> Some ds
      | None \<Rightarrow> if c = CHR 0x0A then None else titleMatch cs)"

text \<open>
  \<^verbatim>\<open>strconv.Atoi\<close> on the strings this file gives it, the capture group
  \<^verbatim>\<open>[0-9]+\<close>: it fails when the number does not fit Go's 64-bit \<open>int\<close>. Any other
  string is answered with a syntax error here; signs are not modelled.
\<close>

definition digitsValue :: "string \<Rightarrow> int" where
  "digitsValue ds = foldl (\<lambda>n c. 10 * n + (of_char c - 48)) 0 ds"

definition Atoi :: "string \<Rightarrow> error + int" where
  "Atoi s =
     (if s = [] \<or> \<not> list_all isDigit s then
        Inl (Error (''strconv.Atoi: parsing '' @ [CHR 0x22] @ s @ [CHR 0x22]
                    @ '': invalid syntax''))
      else if digitsValue s > 2 ^ 63 - 1 then
        Inl (Error (''strconv.Atoi: parsing '' @ [CHR 0x22] @ s @ [CHR 0x22]
                    @ '': value out of range''))
      else Inr (digitsValue s))"

section \<open>Digesting a pull request event\<close>

text \<open>\<^verbatim>\<open>github.PullRequestEventAction\<close> is a string type; the four constants that
  \<^verbatim>\<open>digestPR\<close> names are constructors, every other action is \<open>PullRequestActionOther\<close>.\<close>

datatype PullRequestEventAction =
    PullRequestActionOpened
  | PullRequestActionEdited
  | PullRequestActionClosed
  | PullRequestActionReopened
  | PullRequestActionOther string

text \<open>\<^verbatim>\<open>github.PullRequest\<close>, the fields read here; \<open>UserLogin\<close> is \<^verbatim>\<open>User.Login\<close>,
  \<open>BaseRef\<close> is \<^verbatim>\<open>Base.Ref\<close>, \<open>BaseRepoOwnerLogin\<close> is \<^verbatim>\<open>Base.Repo.Owner.Login\<close> and
  \<open>BaseRepoName\<close> is \<^verbatim>\<open>Base.Repo.Name\<close>.\<close>

record PullRequest =
  Number :: int
  Title :: string
  Merged :: bool
  State :: string
  HTMLURL :: string
  UserLogin :: string
  BaseRef :: string
  BaseRepoOwnerLogin :: string
  BaseRepoName :: string

text \<open>
  \<^verbatim>\<open>github.PullRequestEvent\<close>. \<open>Changes\<close> is the outcome of
  \<^verbatim>\<open>json.Unmarshal(pre.Changes, &changes)\<close>: \<open>None\<close> when decoding fails, and
  otherwise the decoded \<^verbatim>\<open>changes.Title.From\<close> (empty when the field is absent).
\<close>

record PullRequestEvent =
  Action :: PullRequestEventAction
  PullRequest :: PullRequest
  Changes :: "string option"

record event =
  org :: string
  repo :: string
  baseRef :: string
  number :: int
  bugId :: int
  missing :: bool
  merged :: bool
  state :: string
  body :: string
  htmlUrl :: string
  login :: string
  assign :: bool

text \<open>\<^verbatim>\<open>digestPR\<close>, lines 200 to 274. It returns a pointer to an event and an error.\<close>

definition digestPR :: "PullRequestEvent \<Rightarrow> bool option \<Rightarrow> event option \<times> error option" where
  "digestPR pre validateByDefault =
     (if Action pre \<noteq> PullRequestActionOpened \<and>
         Action pre \<noteq> PullRequestActionReopened \<and>
         Action pre \<noteq> PullRequestActionEdited \<and>
         \<not> (Action pre = PullRequestActionClosed \<and> Merged (PullRequest pre))
      then (None, None)
      else
        (let pr = PullRequest pre;
             title = Title pr;
             e = \<lparr>org = BaseRepoOwnerLogin pr, repo = BaseRepoName pr, baseRef = BaseRef pr,
                  number = Number pr, bugId = 0, missing = False, merged = Merged pr,
                  state = State pr, body = title, htmlUrl = HTMLURL pr,
                  login = UserLogin pr, assign = False\<rparr>
         in case (case titleMatch title of
                    None \<Rightarrow> Inr (e\<lparr>missing := True\<rparr>)
                  | Some mat \<Rightarrow>
                      (case Atoi mat of
                         Inl err \<Rightarrow> Inl err
                       | Inr i \<Rightarrow> Inr (e\<lparr>bugId := i\<rparr>))) of
              Inl err \<Rightarrow> (None, Some err)
            | Inr e \<Rightarrow>
                (let intermediate =
                       (if \<not> missing e \<or> validateByDefault = Some True then Some e else None)
                 in case Changes pre of
                      None \<Rightarrow> (intermediate, None)
                    | Some previous \<Rightarrow>
                        (case titleMatch previous of
                           None \<Rightarrow> (intermediate, None)
                         | Some prevMat \<Rightarrow>
                             (case Atoi prevMat of
                                Inl err \<Rightarrow> (intermediate, None)
                              | Inr prevId \<Rightarrow>
                                  if prevId = bugId e then (None, None)
                                  else (Some e, None))))))"

section \<open>The clients and the calls made to them\<close>

text \<open>\<^verbatim>\<open>bugzilla.ExternalBug\<close>, the fields read here.\<close>

record ExternalBug =
  Org :: string
  Repo :: string
  Num :: int

text \<open>
  The interface \<^verbatim>\<open>githubClient\<close>. During one run each method answers as a function
  of its arguments. A method that returns a pointer and an error returns a pair, since
  the source tests the two separately. \<open>GetIssueLabels\<close> returns the names of the labels.
  \<open>Query\<close> takes the value of the variable \<^verbatim>\<open>email\<close> and returns the error or the
  logins of \<^verbatim>\<open>query.Search.Edges\<close>, which the source reads only when there is no error.
\<close>

record githubClient =
  GetPullRequest :: "string \<Rightarrow> string \<Rightarrow> int \<Rightarrow> PullRequest option \<times> error option"
  CreateComment :: "string \<Rightarrow> string \<Rightarrow> int \<Rightarrow> string \<Rightarrow> error option"
  GetIssueLabels :: "string \<Rightarrow> string \<Rightarrow> int \<Rightarrow> string list \<times> error option"
  AddLabel :: "string \<Rightarrow> string \<Rightarrow> int \<Rightarrow> string \<Rightarrow> error option"
  RemoveLabel :: "string \<Rightarrow> string \<Rightarrow> int \<Rightarrow> string \<Rightarrow> error option"
  Query :: "string \<Rightarrow> error + string list"

text \<open>The interface \<^verbatim>\<open>bugzilla.Client\<close>, the methods called here.\<close>

record bugzillaClient =
  Endpoint :: string
  GetBug :: "int \<Rightarrow> Bug option \<times> error option"
  GetExternalBugPRsOnBug :: "int \<Rightarrow> error + ExternalBug list"
  UpdateBug :: "int \<Rightarrow> BugUpdate \<Rightarrow> error option"
  AddPullRequestAsExternalBug :: "int \<Rightarrow> string \<Rightarrow> string \<Rightarrow> int \<Rightarrow> error + bool"

text \<open>Every call to a client is recorded, in order, with its arguments.\<close>

datatype call =
    GetBugCall int
  | UpdateBugCall int BugUpdate
  | AddPullRequestAsExternalBugCall int string string int
  | GetExternalBugPRsOnBugCall int
  | GetPullRequestCall string string int
  | CreateCommentCall string string int string
  | GetIssueLabelsCall string string int
  | AddLabelCall string string int string
  | RemoveLabelCall string string int string
  | QueryCall string

text \<open>A run returns an error value (nil is \<open>None\<close>) or panics on a nil pointer.\<close>

datatype outcome = Return "error option" | Panic

definition nl :: string where
  "nl = [CHR 0x0A]"

text \<open>The method \<^verbatim>\<open>event.comment\<close>, lines 336 to 340.\<close>

definition comment :: "externals \<Rightarrow> githubClient \<Rightarrow> event \<Rightarrow> string \<Rightarrow> call list \<times> error option"
  where
  "comment x gc e reply =
     (let text = FormatResponseRaw x (body e) (htmlUrl e) (login e) reply
      in ([CreateCommentCall (org e) (repo e) (number e) text],
          CreateComment gc (org e) (repo e) (number e) text))"

text \<open>The verb \<^verbatim>\<open>%v\<close> on an error: its message, or \<^verbatim>\<open><nil>\<close>.\<close>

definition errorText :: "error option \<Rightarrow> string" where
  "errorText err = (case err of None \<Rightarrow> ''<nil>'' | Some failure \<Rightarrow> message failure)"

text \<open>\<^verbatim>\<open>formatError\<close>, lines 779 to 784.\<close>

definition formatError :: "string \<Rightarrow> string \<Rightarrow> int \<Rightarrow> error option \<Rightarrow> string" where
  "formatError action endpoint bugId' err =
     ''An error was encountered '' @ action @ '' for bug '' @ itoa bugId'
     @ '' on the Bugzilla server at '' @ endpoint @ '':'' @ nl
     @ ''> '' @ errorText err @ nl
     @ ''Please contact an administrator to resolve this issue, then request a bug refresh with <code>/bugzilla refresh</code>.''"

text \<open>\<^verbatim>\<open>getBug\<close>, lines 764 to 777: the calls, the bug and the error it returns.\<close>

definition getBug ::
  "externals \<Rightarrow> bugzillaClient \<Rightarrow> int \<Rightarrow> (string \<Rightarrow> call list \<times> error option)
   \<Rightarrow> call list \<times> Bug option \<times> error option" where
  "getBug x bc bugId' comment' =
     (case GetBug bc bugId' of (bug, err) \<Rightarrow>
        if err \<noteq> None \<and> \<not> IsNotFound x err then
          (case comment' (formatError ''searching'' (Endpoint bc) bugId' err) of
             (cs, r) \<Rightarrow> (GetBugCall bugId' # cs, None, r))
        else if IsNotFound x err \<or> bug = None then
          (case comment' (''No Bugzilla bug with ID '' @ itoa bugId'
                   @ '' exists in the tracker at '' @ Endpoint bc @ ''.'' @ nl
                   @ ''Once a valid bug is referenced in the title of this pull request, request a bug refresh with <code>/bugzilla refresh</code>.'') of
             (cs, r) \<Rightarrow> (GetBugCall bugId' # cs, None, r))
        else ([GetBugCall bugId'], bug, None))"

text \<open>\<^verbatim>\<open>processQuery\<close>, lines 376 to 389, on the logins of the edges.\<close>

definition processQuery :: "string list \<Rightarrow> string \<Rightarrow> string" where
  "processQuery logins email =
     (case logins of
        [] \<Rightarrow>
          ''No GitHub users were found matching the public email listed for the QA contact in Bugzilla (''
          @ email @ ''), skipping assignment.''
      | [l] \<Rightarrow> ''Assigning the QA contact for review:'' @ nl @ ''/assign @'' @ l
      | _ \<Rightarrow>
          ''Multiple GitHub users were found matching the public email listed for the QA contact in Bugzilla (''
          @ email @ ''), skipping assignment. List of users with matching email:''
          @ concat (map (\<lambda>l. nl @ [CHR 0x09] @ ''- '' @ l) logins))"

section \<open>Handling an event\<close>

text \<open>Lines 414 to 423 of \<^verbatim>\<open>handle\<close>: the loop that fetches the dependents. It stops
  at the first error (\<open>Inl (Some (id, err))\<close>); a nil bug without an error is dereferenced
  (\<open>Inl None\<close>).\<close>

fun fetchDependents ::
  "bugzillaClient \<Rightarrow> int list \<Rightarrow> call list \<times> ((int \<times> error) option + Bug list)" where
  "fetchDependents bc [] = ([], Inr [])"
| "fetchDependents bc (i # ids) =
     (case GetBug bc i of
        (_, Some err) \<Rightarrow> ([GetBugCall i], Inl (Some (i, err)))
      | (None, None) \<Rightarrow> ([GetBugCall i], Inl None)
      | (Some dependent, None) \<Rightarrow>
          (case fetchDependents bc ids of
             (cs, Inl stop) \<Rightarrow> (GetBugCall i # cs, Inl stop)
           | (cs, Inr dependents) \<Rightarrow> (GetBugCall i # cs, Inr (dependent # dependents))))"

text \<open>Lines 409 to 423: the bug and its dependents, or the end of the run.\<close>

definition fetchBug ::
  "externals \<Rightarrow> event \<Rightarrow> githubClient \<Rightarrow> bugzillaClient \<Rightarrow> BugzillaBranchOptions
   \<Rightarrow> call list \<times> (outcome + Bug \<times> Bug list)" where
  "fetchBug x e gc bc options =
     (case getBug x bc (bugId e) (comment x gc e) of
        (cs, None, err) \<Rightarrow> (cs, Inl (Return err))
      | (cs, Some bug, Some err) \<Rightarrow> (cs, Inl (Return (Some err)))
      | (cs, Some bug, None) \<Rightarrow>
          if DependentBugStates options \<noteq> None \<or> DependentBugTargetRelease options \<noteq> None
          then
            (case fetchDependents bc (DependsOn bug) of
               (ds, Inl None) \<Rightarrow> (cs @ ds, Inl Panic)
             | (ds, Inl (Some (i, err))) \<Rightarrow>
                 (case comment x gc e
                         (formatError (''searching for dependent bug '' @ itoa i)
                            (Endpoint bc) (bugId e) (Some err)) of
                    (cc, r) \<Rightarrow> (cs @ ds @ cc, Inl (Return r)))
             | (ds, Inr dependents) \<Rightarrow> (cs @ ds, Inr (bug, dependents)))
          else (cs, Inr (bug, [])))"

text \<open>Lines 429 to 447: the valid bug is moved to the post-validation state and linked
  to the pull request. The result is the end of the run or the response so far.\<close>

definition advanceBug ::
  "externals \<Rightarrow> event \<Rightarrow> githubClient \<Rightarrow> bugzillaClient \<Rightarrow> BugzillaBranchOptions \<Rightarrow> Bug
   \<Rightarrow> call list \<times> (outcome + string)" where
  "advanceBug x e gc bc options bug =
     (let response0 = ''This pull request references ''
            @ bugLink (bugId e) (Endpoint bc) (bugId e) @ '', which is valid.'';
          moved =
            (case AsBugUpdate x (StateAfterValidation options) (Some bug) of
               None \<Rightarrow> ([], Inr response0)
             | Some update \<Rightarrow>
                 (case UpdateBug bc (bugId e) update of
                    Some err \<Rightarrow>
                      (case comment x gc e
                              (formatError (''updating to the ''
                                  @ StateString x (StateAfterValidation options) @ '' state'')
                                 (Endpoint bc) (bugId e) (Some err)) of
                         (cc, r) \<Rightarrow> (UpdateBugCall (bugId e) update # cc, Inl (Return r)))
                  | None \<Rightarrow>
                      ([UpdateBugCall (bugId e) update],
                       Inr (response0 @ '' The bug has been moved to the ''
                            @ StateString x (StateAfterValidation options) @ '' state.''))))
      in case moved of
           (cs, Inl out) \<Rightarrow> (cs, Inl out)
         | (cs, Inr response1) \<Rightarrow>
             if AddExternalLink options = Some True then
               (case AddPullRequestAsExternalBug bc (bugId e) (org e) (repo e) (number e) of
                  Inl err \<Rightarrow>
                    (case comment x gc e
                            (formatError ''adding this pull request to the external tracker bugs''
                               (Endpoint bc) (bugId e) (Some err)) of
                       (cc, r) \<Rightarrow>
                         (cs @ AddPullRequestAsExternalBugCall (bugId e) (org e) (repo e)
                                 (number e) # cc,
                          Inl (Return r)))
                | Inr changed \<Rightarrow>
                    (cs @ [AddPullRequestAsExternalBugCall (bugId e) (org e) (repo e) (number e)],
                     Inr (if changed
                          then response1 @ '' The bug has been updated to refer to the pull request using the external bug tracker.''
                          else response1)))
             else (cs, Inr response1))"

text \<open>Lines 449 to 458: the list of the validations that were run.\<close>

definition validationDetails :: "string list \<Rightarrow> string" where
  "validationDetails validationsRun =
     nl @ nl @ ''<details>''
     @ (if length validationsRun = 0
        then ''<summary>No validations were run on this bug</summary>''
        else ''<summary>'' @ itoa (int (length validationsRun))
             @ '' validation(s) were run on this bug</summary>'' @ nl)
     @ concat (map (\<lambda>validation. nl @ ''* '' @ validation) validationsRun)
     @ ''</details>''"

text \<open>Lines 460 to 479: the QA contact is looked up by email, when there is one.\<close>

definition assignQA ::
  "externals \<Rightarrow> event \<Rightarrow> githubClient \<Rightarrow> bugzillaClient \<Rightarrow> Bug \<Rightarrow> string
   \<Rightarrow> call list \<times> (outcome + string)" where
  "assignQA x e gc bc bug response =
     (if assign e then
        (case QAContactDetail bug of
           None \<Rightarrow>
             ([], Inr (response @ bugLink (bugId e) (Endpoint bc) (bugId e)
                       @ '' does not have a QA contact, skipping assignment''))
         | Some detail \<Rightarrow>
             if Email detail = [] then
               ([], Inr (response @ ''QA contact for ''
                         @ bugLink (bugId e) (Endpoint bc) (bugId e)
                         @ '' does not have a listed email, skipping assignment''))
             else
               (let email = Email detail
                in case Query gc email of
                     Inl err \<Rightarrow>
                       (case comment x gc e
                               (formatError (''querying GitHub for users with public email (''
                                   @ email @ '')'') (Endpoint bc) (bugId e) (Some err)) of
                          (cc, r) \<Rightarrow> (QueryCall email # cc, Inl (Return r)))
                   | Inr logins \<Rightarrow>
                       ([QueryCall email], Inr (response @ nl @ nl @ processQuery logins email))))
      else ([], Inr response))"

text \<open>Lines 481 to 489: the response for an invalid bug.\<close>

definition invalidResponse :: "event \<Rightarrow> bugzillaClient \<Rightarrow> string list \<Rightarrow> string" where
  "invalidResponse e bc why =
     ''This pull request references '' @ bugLink (bugId e) (Endpoint bc) (bugId e)
     @ '', which is invalid:'' @ nl
     @ concat (map (\<lambda>reason. '' - '' @ reason @ nl) why) @ nl
     @ ''Comment <code>/bugzilla refresh</code> to re-evaluate validity if changes to the Bugzilla bug are made, or edit the title of this pull request to link to a different bug.''"

text \<open>Lines 404 and 405: the response when the title references no bug.\<close>

definition missingResponse :: string where
  "missingResponse =
     ''No Bugzilla bug is referenced in the title of this pull request.'' @ nl
     @ ''To reference a bug, add 'Bug XXX:' to the title of this pull request and request another bug refresh with <code>/bugzilla refresh</code>.''"

text \<open>
  Lines 495 to 527: the labels are read (an error is logged, and the list that came
  with it is used all the same), then each of the two labels is added or removed where
  its presence differs from what is needed. Errors of the label calls are logged only.
\<close>

definition reconcileLabels ::
  "externals \<Rightarrow> event \<Rightarrow> githubClient \<Rightarrow> bool \<Rightarrow> bool \<Rightarrow> call list" where
  "reconcileLabels x e gc needsValidLabel needsInvalidLabel =
     (case GetIssueLabels gc (org e) (repo e) (number e) of (currentLabels, err) \<Rightarrow>
        (let hasValidLabel = (ValidBug x \<in> set currentLabels);
             hasInvalidLabel = (InvalidBug x \<in> set currentLabels)
         in [GetIssueLabelsCall (org e) (repo e) (number e)]
            @ (if needsValidLabel \<and> \<not> hasValidLabel
               then [AddLabelCall (org e) (repo e) (number e) (ValidBug x)]
               else if \<not> needsValidLabel \<and> hasValidLabel
               then [RemoveLabelCall (org e) (repo e) (number e) (ValidBug x)]
               else [])
            @ (if needsInvalidLabel \<and> \<not> hasInvalidLabel
               then [AddLabelCall (org e) (repo e) (number e) (InvalidBug x)]
               else if \<not> needsInvalidLabel \<and> hasInvalidLabel
               then [RemoveLabelCall (org e) (repo e) (number e) (InvalidBug x)]
               else [])))"

text \<open>Lines 492 to 529: the end of \<^verbatim>\<open>handle\<close>, labels and then the comment.\<close>

definition finish ::
  "externals \<Rightarrow> event \<Rightarrow> githubClient \<Rightarrow> bool \<Rightarrow> bool \<Rightarrow> string \<Rightarrow> call list \<times> outcome" where
  "finish x e gc needsValidLabel needsInvalidLabel response =
     (case comment x gc e response of
        (cc, r) \<Rightarrow> (reconcileLabels x e gc needsValidLabel needsInvalidLabel @ cc, Return r))"

section \<open>Handling a merge\<close>

text \<open>The closures of \<^verbatim>\<open>handleMerge\<close>, lines 726 to 746.\<close>

definition link :: "ExternalBug \<Rightarrow> string" where
  "link bug =
     ''['' @ Org bug @ ''/'' @ Repo bug @ ''#'' @ itoa (Num bug) @ ''](https://github.com/''
     @ Org bug @ ''/'' @ Repo bug @ ''/pull/'' @ itoa (Num bug) @ '')''"

definition mergedMessage :: "ExternalBug list \<Rightarrow> string \<Rightarrow> string" where
  "mergedMessage mergedPRs statement =
     statement @ '' pull requests linked via external trackers have merged: ''
     @ Join (map link mergedPRs) '', '' @ ''.''"

text \<open>The map \<^verbatim>\<open>unmergedPrStates\<close> is an association list. The loop that fills it
  leaves after its first insertion, so the order in which Go ranges over it does not
  matter.\<close>

definition unmergedMessage :: "(ExternalBug \<times> string) list \<Rightarrow> string" where
  "unmergedMessage unmergedPrStates =
     ''The following pull requests linked via external trackers have not merged:''
     @ Join (map (\<lambda>(bug, state'). nl @ '' * '' @ link bug @ '' is '' @ state')
              unmergedPrStates) nl"

definition outcomeMessage ::
  "externals \<Rightarrow> event \<Rightarrow> bugzillaClient \<Rightarrow> BugzillaBranchOptions \<Rightarrow> string \<Rightarrow> string" where
  "outcomeMessage x e bc options action =
     bugLink (bugId e) (Endpoint bc) (bugId e) @ '' has '' @ action @ ''been moved to the ''
     @ StateString x (StateAfterMerge options) @ '' state.''"

text \<open>
  Lines 693 to 724: the loop over the linked pull requests, on the variables
  \<^verbatim>\<open>shouldMigrate\<close>, \<^verbatim>\<open>mergedPRs\<close> and \<^verbatim>\<open>unmergedPrStates\<close>. It ends the run when
  a pull request cannot be fetched, and leaves at the first unmerged one.
\<close>

fun checkPRs ::
  "externals \<Rightarrow> event \<Rightarrow> githubClient \<Rightarrow> bugzillaClient \<Rightarrow> ExternalBug list
   \<Rightarrow> bool \<times> ExternalBug list \<times> (ExternalBug \<times> string) list
   \<Rightarrow> call list \<times> (outcome + bool \<times> ExternalBug list \<times> (ExternalBug \<times> string) list)" where
  "checkPRs x e gc bc [] vars = ([], Inr vars)"
| "checkPRs x e gc bc (item # prs) (shouldMigrate, mergedPRs, unmergedPrStates) =
     (case (if org e = Org item \<and> repo e = Repo item \<and> number e = Num item
            then ([], Inr (merged e, state e))
            else
              (case GetPullRequest gc (Org item) (Repo item) (Num item) of
                 (_, Some err) \<Rightarrow>
                   (case comment x gc e
                           (formatError
                              (''checking the state of a related pull request at https://github.com/''
                               @ Org item @ ''/'' @ Repo item @ ''/pull/'' @ itoa (Num item))
                              (Endpoint bc) (bugId e) (Some err)) of
                      (cc, r) \<Rightarrow>
                        (GetPullRequestCall (Org item) (Repo item) (Num item) # cc,
                         Inl (Return r)))
               | (None, None) \<Rightarrow>
                   ([GetPullRequestCall (Org item) (Repo item) (Num item)], Inl Panic)
               | (Some pr, None) \<Rightarrow>
                   ([GetPullRequestCall (Org item) (Repo item) (Num item)],
                    Inr (Merged pr, State pr)))) of
        (cs, Inl out) \<Rightarrow> (cs, Inl out)
      | (cs, Inr (merged', state')) \<Rightarrow>
          (let mergedPRs' = (if merged' then mergedPRs @ [item] else mergedPRs);
               unmergedPrStates' =
                 (if merged' then unmergedPrStates
                  else AList.update item state' unmergedPrStates);
               shouldMigrate' = (shouldMigrate \<and> merged')
           in if \<not> shouldMigrate' then
                (cs, Inr (shouldMigrate', mergedPRs', unmergedPrStates'))
              else
                (case checkPRs x e gc bc prs (shouldMigrate', mergedPRs', unmergedPrStates') of
                   (cs', r) \<Rightarrow> (cs @ cs', r))))"

text \<open>Lines 665 to 686: with a validity constraint configured, the bug is fetched again
  and must be in an allowed state. \<open>Inl\<close> ends the run.\<close>

definition mergeGuard ::
  "externals \<Rightarrow> event \<Rightarrow> githubClient \<Rightarrow> bugzillaClient \<Rightarrow> BugzillaBranchOptions
   \<Rightarrow> call list \<times> (outcome + unit)" where
  "mergeGuard x e gc bc options =
     (if ValidStates options \<noteq> None \<or> StateAfterValidation options \<noteq> None then
        (case getBug x bc (bugId e) (comment x gc e) of
           (cs, None, err) \<Rightarrow> (cs, Inl (Return err))
         | (cs, Some bug, Some err) \<Rightarrow> (cs, Inl (Return (Some err)))
         | (cs, Some bug, None) \<Rightarrow>
             (let allowed =
                    (case ValidStates options of None \<Rightarrow> [] | Some validStates \<Rightarrow> validStates)
                    @ (case StateAfterValidation options of None \<Rightarrow> [] | Some s \<Rightarrow> [s])
              in if \<not> bugMatchesStates x bug allowed then
                   (case comment x gc e
                           (bugLink (bugId e) (Endpoint bc) (bugId e)
                            @ '' is in an unrecognized state (''
                            @ PrettyStatus x (Bug.Status bug) (Bug.Resolution bug)
                            @ '') and will not be moved to the ''
                            @ StateString x (StateAfterMerge options) @ '' state.'') of
                      (cc, r) \<Rightarrow> (cs @ cc, Inl (Return r)))
                 else (cs, Inr ())))
      else ([], Inr ()))"

text \<open>Lines 748 to 761: the update of the bug and the comment.\<close>

definition migrate ::
  "externals \<Rightarrow> event \<Rightarrow> githubClient \<Rightarrow> bugzillaClient \<Rightarrow> BugzillaBranchOptions
   \<Rightarrow> bool \<times> ExternalBug list \<times> (ExternalBug \<times> string) list \<Rightarrow> call list \<times> outcome" where
  "migrate x e gc bc options vars =
     (case vars of (shouldMigrate, mergedPRs, unmergedPrStates) \<Rightarrow>
        (case AsBugUpdate x (StateAfterMerge options) None of
           None \<Rightarrow> ([], Return None)
         | Some update \<Rightarrow>
             if shouldMigrate then
               (case UpdateBug bc (bugId e) update of
                  Some err \<Rightarrow>
                    (case comment x gc e
                            (formatError (''updating to the ''
                                @ StateString x (StateAfterMerge options) @ '' state'')
                               (Endpoint bc) (bugId e) (Some err)) of
                       (cc, r) \<Rightarrow> (UpdateBugCall (bugId e) update # cc, Return r))
                | None \<Rightarrow>
                    (case comment x gc e
                            (mergedMessage mergedPRs ''All'' @ '' ''
                             @ outcomeMessage x e bc options []) of
                       (cc, r) \<Rightarrow> (UpdateBugCall (bugId e) update # cc, Return r)))
             else
               (case comment x gc e
                       (mergedMessage mergedPRs ''Some'' @ '' ''
                        @ unmergedMessage unmergedPrStates @ nl
                        @ outcomeMessage x e bc options []) of
                  (cc, r) \<Rightarrow> (cc, Return r))))"

text \<open>\<^verbatim>\<open>handleMerge\<close>, lines 656 to 762.\<close>

definition handleMerge ::
  "externals \<Rightarrow> event \<Rightarrow> githubClient \<Rightarrow> bugzillaClient \<Rightarrow> BugzillaBranchOptions
   \<Rightarrow> call list \<times> outcome" where
  "handleMerge x e gc bc options =
     (if StateAfterMerge options = None then ([], Return None)
      else if missing e then ([], Return None)
      else
        (case mergeGuard x e gc bc options of
           (cg, Inl out) \<Rightarrow> (cg, out)
         | (cg, Inr _) \<Rightarrow>
             (case GetExternalBugPRsOnBug bc (bugId e) of
                Inl err \<Rightarrow>
                  (case comment x gc e
                          (formatError ''searching for external tracker bugs''
                             (Endpoint bc) (bugId e) (Some err)) of
                     (cc, r) \<Rightarrow> (cg @ GetExternalBugPRsOnBugCall (bugId e) # cc, Return r))
              | Inr prs \<Rightarrow>
                  (case checkPRs x e gc bc prs (True, [], []) of
                     (cp, Inl out) \<Rightarrow> (cg @ GetExternalBugPRsOnBugCall (bugId e) # cp, out)
                   | (cp, Inr vars) \<Rightarrow>
                       (case migrate x e gc bc options vars of
                          (cm, out) \<Rightarrow>
                            (cg @ GetExternalBugPRsOnBugCall (bugId e) # cp @ cm, out))))))"

text \<open>\<^verbatim>\<open>handle\<close>, lines 391 to 530.\<close>

definition handle ::
  "externals \<Rightarrow> event \<Rightarrow> githubClient \<Rightarrow> bugzillaClient \<Rightarrow> BugzillaBranchOptions
   \<Rightarrow> call list \<times> outcome" where
  "handle x e gc bc options =
     (if merged e then handleMerge x e gc bc options
      else if missing e then finish x e gc False False missingResponse
      else
        (case fetchBug x e gc bc options of
           (cs, Inl out) \<Rightarrow> (cs, out)
         | (cs, Inr (bug, dependents)) \<Rightarrow>
             (case validateBug x bug dependents options (Endpoint bc) of
                (valid, validationsRun, why) \<Rightarrow>
                  if valid then
                    (case advanceBug x e gc bc options bug of
                       (ca, Inl out) \<Rightarrow> (cs @ ca, out)
                     | (ca, Inr response) \<Rightarrow>
                         (case assignQA x e gc bc bug
                                 (response @ validationDetails validationsRun) of
                            (cq, Inl out) \<Rightarrow> (cs @ ca @ cq, out)
                          | (cq, Inr response') \<Rightarrow>
                              (case finish x e gc valid (\<not> valid) response' of
                                 (cf, out) \<Rightarrow> (cs @ ca @ cq @ cf, out))))
                  else
                    (case finish x e gc valid (\<not> valid) (invalidResponse e bc why) of
                       (cf, out) \<Rightarrow> (cs @ cf, out)))))"

section \<open>Notions used to state the properties\<close>

text \<open>A verdict is consistent when it is not both valid and carrying errors.\<close>

definition consistent :: "verdict \<Rightarrow> bool" where
  "consistent v = (fst v \<longrightarrow> snd (snd v) = [])"



text \<open>The call by which \<^verbatim>\<open>event.comment\<close> posts a reply, and what the review host
  answers to it.\<close>

definition replyCall :: "externals \<Rightarrow> event \<Rightarrow> string \<Rightarrow> call" where
  "replyCall x e reply =
     CreateCommentCall (org e) (repo e) (number e)
       (FormatResponseRaw x (body e) (htmlUrl e) (login e) reply)"

definition replyResult :: "externals \<Rightarrow> githubClient \<Rightarrow> event \<Rightarrow> string \<Rightarrow> error option" where
  "replyResult x gc e reply =
     CreateComment gc (org e) (repo e) (number e)
       (FormatResponseRaw x (body e) (htmlUrl e) (login e) reply)"

fun isUpdateBugCall :: "call \<Rightarrow> bool" where
  "isUpdateBugCall (UpdateBugCall _ _) = True"
| "isUpdateBugCall _ = False"

fun isCreateCommentCall :: "call \<Rightarrow> bool" where
  "isCreateCommentCall (CreateCommentCall _ _ _ _) = True"
| "isCreateCommentCall _ = False"

fun isQueryCall :: "call \<Rightarrow> bool" where
  "isQueryCall (QueryCall _) = True"
| "isQueryCall _ = False"

fun isLabelCall :: "call \<Rightarrow> bool" where
  "isLabelCall (AddLabelCall _ _ _ _) = True"
| "isLabelCall (RemoveLabelCall _ _ _ _) = True"
| "isLabelCall _ = False"

text \<open>
  Modelled from the spec: the label store of the review host, which is not part of this
  repository. Adding and removing a named label are the idempotent create and delete
  operations of section 5 of the specification: after an add the label is present,
  after a remove it is absent, and the other labels are untouched.
\<close>

fun applyLabelCall :: "string list \<Rightarrow> call \<Rightarrow> string list" where
  "applyLabelCall labels (AddLabelCall _ _ _ l) = (if l \<in> set labels then labels else labels @ [l])"
| "applyLabelCall labels (RemoveLabelCall _ _ _ l) = filter (\<lambda>l'. l' \<noteq> l) labels"
| "applyLabelCall labels _ = labels"

definition applyLabelCalls :: "string list \<Rightarrow> call list \<Rightarrow> string list" where
  "applyLabelCalls labels calls = foldl applyLabelCall labels calls"

section \<open>Concrete inputs\<close>

text \<open>One instance of the parameters, on which the model is run in the examples.\<close>

definition sampleExternals :: externals where
  "sampleExternals =
     \<lparr>Matches = (\<lambda>s bug.
          (BugzillaBugState.Status s = [] \<or> BugzillaBugState.Status s = Bug.Status bug) \<and>
          (BugzillaBugState.Resolution s = [] \<or>
             BugzillaBugState.Resolution s = Bug.Resolution bug)),
      AsBugUpdate = (\<lambda>s bug.
          case s of
            None \<Rightarrow> None
          | Some st \<Rightarrow>
              if BugzillaBugState.Status st = [] \<and> BugzillaBugState.Resolution st = []
              then None
              else Some \<lparr>BugUpdate.Status = BugzillaBugState.Status st,
                          BugUpdate.Resolution = BugzillaBugState.Resolution st\<rparr>),
      StateString = (\<lambda>s. case s of None \<Rightarrow> ''<nil>'' | Some st \<Rightarrow> BugzillaBugState.Status st),
      PrettyStatus = (\<lambda>status resolution.
          if resolution = [] then status else status @ '' ('' @ resolution @ '')''),
      IsNotFound = (\<lambda>err. err = Some (Error ''not found'')),
      FormatResponseRaw = (\<lambda>body' url login' reply. ''@'' @ login' @ '': '' @ reply),
      ValidBug = ''bugzilla/valid-bug'',
      InvalidBug = ''bugzilla/invalid-bug'',
      Quote = (\<lambda>s. CHR 0x22 # s @ [CHR 0x22])\<rparr>"

definition noOptions :: BugzillaBranchOptions where
  "noOptions =
     \<lparr>ValidateByDefault = None, IsOpen = None, TargetRelease = None, ValidStates = None,
      DependentBugStates = None, DependentBugTargetRelease = None,
      StateAfterValidation = None, AddExternalLink = None, StateAfterMerge = None\<rparr>"

definition sampleBug :: Bug where
  "sampleBug =
     \<lparr>ID = 1234, IsOpen = True, Status = ''NEW'', Resolution = [],
      TargetRelease = [''4.4.0''], DependsOn = [], QAContactDetail = None\<rparr>"



definition samplePullRequest :: PullRequest where
  "samplePullRequest =
     \<lparr>Number = 7, Title = ''Bug 1234: fix flake'', Merged = False, State = ''open'',
      HTMLURL = ''https://github.com/org/repo/pull/7'', UserLogin = ''dev'',
      BaseRef = ''master'', BaseRepoOwnerLogin = ''org'', BaseRepoName = ''repo''\<rparr>"

definition sampleEvent :: event where
  "sampleEvent =
     \<lparr>org = ''org'', repo = ''repo'', baseRef = ''master'', number = 7, bugId = 1234,
      missing = False, merged = False, state = ''open'', body = ''Bug 1234: fix flake'',
      htmlUrl = ''https://github.com/org/repo/pull/7'', login = ''dev'', assign = False\<rparr>"





text \<open>A review host on which pull request 8 has merged and every other one is open; it
  holds the given labels and knows one user for every email.\<close>

definition sampleGithub :: "string list \<Rightarrow> githubClient" where
  "sampleGithub labels =
     \<lparr>GetPullRequest = (\<lambda>org' repo' num.
          (Some (samplePullRequest\<lparr>Number := num, Merged := (num = 8),
                   State := (if num = 8 then ''closed'' else ''open'')\<rparr>), None)),
      CreateComment = (\<lambda>org' repo' num text. None),
      GetIssueLabels = (\<lambda>org' repo' num. (labels, None)),
      AddLabel = (\<lambda>org' repo' num l. None),
      RemoveLabel = (\<lambda>org' repo' num l. None),
      Query = (\<lambda>email. Inr [''alice''])\<rparr>"

text \<open>A tracker that knows bug 1234 only, linked to the given pull requests.\<close>

definition sampleBugzilla :: "ExternalBug list \<Rightarrow> bugzillaClient" where
  "sampleBugzilla prs =
     \<lparr>Endpoint = ''https://bz'',
      GetBug = (\<lambda>i. if i = 1234 then (Some sampleBug, None)
                     else (None, Some (Error ''not found''))),
      GetExternalBugPRsOnBug = (\<lambda>i. Inr prs),
      UpdateBug = (\<lambda>i update. None),
      AddPullRequestAsExternalBug = (\<lambda>i org' repo' num. Inr True)\<rparr>"


section \<open>Properties of the title pattern and of digestPR\<close>


















text \<open>
  Claim C7. When an edit event carries a previous title, and the previous and the
  current title reference the same bug id, \<^verbatim>\<open>digestPR\<close> returns no event and no error.
\<close>

theorem digestPR_same_bug_suppressed:
  assumes "Action pre = PullRequestActionEdited"
    and "Changes pre = Some previous"
    and "titleMatch previous = Some prevMat"
    and "Atoi prevMat = Inr i"
    and "titleMatch (Title (PullRequest pre)) = Some mat"
    and "Atoi mat = Inr i"
  shows "digestPR pre validateByDefault = (None, None)"
  using assms by (simp add: digestPR_def)


text \<open>An edit that rewrote the title around the reference to bug 1234.\<close>

theorem digestPR_same_bug_suppressed_witness:
  "digestPR \<lparr>Action = PullRequestActionEdited, PullRequest = samplePullRequest,
             Changes = Some ''WIP: bug 01234: fix''\<rparr> (Some True) = (None, None)"
proof -
  have "titleMatch ''WIP: bug 01234: fix'' = Some ''01234''"
    by code_simp
  moreover have "Atoi ''01234'' = Inr 1234"
    by code_simp
  moreover have "titleMatch ''Bug 1234: fix flake'' = Some ''1234''"
    by code_simp
  moreover have "Atoi ''1234'' = Inr 1234"
    by code_simp
  ultimately show ?thesis
    using digestPR_same_bug_suppressed
      [of "\<lparr>Action = PullRequestActionEdited, PullRequest = samplePullRequest,
             Changes = Some ''WIP: bug 01234: fix''\<rparr>"
        "''WIP: bug 01234: fix''" "''01234''" 1234 "''1234''" "Some True"]
    by (simp add: samplePullRequest_def)
qed


section \<open>Properties of validateBug\<close>

lemma checkIsOpen_consistent: "consistent v \<Longrightarrow> consistent (checkIsOpen bug options v)"
  by (cases v) (simp add: checkIsOpen_def consistent_def Let_def split: option.splits)

lemma checkTargetRelease_consistent:
  "consistent v \<Longrightarrow> consistent (checkTargetRelease x bug options v)"
  by (cases v) (simp add: checkTargetRelease_def consistent_def split: option.splits list.splits)

lemma checkValidStates_consistent:
  "consistent v \<Longrightarrow> consistent (checkValidStates x bug options v)"
  by (cases v) (simp add: checkValidStates_def consistent_def Let_def split: option.splits)

lemma checkDependentStates_consistent:
  "consistent v \<Longrightarrow> consistent (checkDependentStates x endpoint states dependents v)"
proof (induction dependents arbitrary: v)
  case Nil
  then show ?case by simp
next
  case (Cons bug dependents)
  obtain valid validations errors where v: "v = (valid, validations, errors)"
    by (cases v) auto
  show ?case
    unfolding v checkDependentStates.simps
    by (rule Cons.IH) (use Cons.prems in \<open>simp add: v consistent_def Let_def\<close>)
qed

lemma checkDependentTargetRelease_consistent:
  "consistent v \<Longrightarrow> consistent (checkDependentTargetRelease x endpoint target dependents v)"
proof (induction dependents arbitrary: v)
  case Nil
  then show ?case by simp
next
  case (Cons bug dependents)
  obtain valid validations errors where v: "v = (valid, validations, errors)"
    by (cases v) auto
  show ?case
    unfolding v checkDependentTargetRelease.simps
    by (rule Cons.IH) (use Cons.prems in \<open>simp add: v consistent_def split: list.splits\<close>)
qed

lemma checkDependents_consistent:
  "consistent v \<Longrightarrow> consistent (checkDependents x bug dependents options endpoint v)"
  by (cases v)
    (simp add: checkDependents_def consistent_def Let_def split: option.splits)

lemma validateBug_consistent: "consistent (validateBug x bug dependents options endpoint)"
proof -
  let ?v3 = "checkValidStates x bug options
      (checkTargetRelease x bug options (checkIsOpen bug options (True, [], [])))"
  let ?v4 = "case DependentBugStates options of None \<Rightarrow> ?v3
      | Some states \<Rightarrow> checkDependentStates x endpoint states dependents ?v3"
  let ?v5 = "case DependentBugTargetRelease options of None \<Rightarrow> ?v4
      | Some target \<Rightarrow> checkDependentTargetRelease x endpoint target dependents ?v4"
  have "consistent (True, [], [])"
    by (simp add: consistent_def)
  then have "consistent ?v3"
    by (intro checkValidStates_consistent checkTargetRelease_consistent checkIsOpen_consistent)
  then have "consistent ?v4"
    by (cases "DependentBugStates options") (simp_all add: checkDependentStates_consistent)
  then have "consistent ?v5"
    by (cases "DependentBugTargetRelease options")
      (simp_all add: checkDependentTargetRelease_consistent)
  then show ?thesis
    unfolding validateBug_def Let_def by (rule checkDependents_consistent)
qed

text \<open>
  Claim C3. With a requirement on the states or on the target release of the dependent
  bugs, and no dependents, the bug is invalid, and the last error names the requirement
  that was not met.
\<close>

theorem validateBug_empty_dependents_invalid:
  assumes "DependentBugStates options \<noteq> None \<or> DependentBugTargetRelease options \<noteq> None"
  shows "\<exists>validations errors.
      validateBug x bug [] options endpoint = (False, validations, errors) \<and>
      errors \<noteq> [] \<and>
      last errors =
        ''expected '' @ bugLink (ID bug) endpoint (ID bug) @
        (case (DependentBugStates options, DependentBugTargetRelease options) of
           (Some states, Some target) \<Rightarrow>
             '' to depend on a bug targeting the '' @ Quote x target
             @ '' release and in one of the following states: ''
             @ Join (prettyStates x states) '', ''
         | (Some states, None) \<Rightarrow>
             '' to depend on a bug in one of the following states: ''
             @ Join (prettyStates x states) '', ''
         | (None, Some target) \<Rightarrow>
             '' to depend on a bug targeting the '' @ Quote x target @ '' release''
         | (None, None) \<Rightarrow> [])
        @ '', but no dependents were found''"
proof -
  obtain valid validations errors where v3:
    "checkValidStates x bug options
       (checkTargetRelease x bug options (checkIsOpen bug options (True, [], [])))
     = (valid, validations, errors)"
    using prod_cases3 by blast
  show ?thesis
    using assms
    by (cases "DependentBugStates options"; cases "DependentBugTargetRelease options")
      (simp_all add: validateBug_def checkDependents_def v3 Let_def)
qed

text \<open>A bug without dependents under a policy that requires their target release.\<close>

theorem validateBug_empty_dependents_invalid_witness:
  "\<exists>validations errors.
      validateBug sampleExternals sampleBug []
        (noOptions\<lparr>DependentBugTargetRelease := Some ''4.3''\<rparr>) ''https://bz''
      = (False, validations, errors) \<and>
      errors \<noteq> [] \<and>
      last errors =
        ''expected '' @ bugLink 1234 ''https://bz'' 1234
        @ '' to depend on a bug targeting the '' @ [CHR 0x22] @ ''4.3'' @ [CHR 0x22]
        @ '' release, but no dependents were found''"
  using validateBug_empty_dependents_invalid
    [of "noOptions\<lparr>DependentBugTargetRelease := Some ''4.3''\<rparr>" sampleExternals sampleBug
      "''https://bz''"]
  by (simp add: noOptions_def sampleExternals_def sampleBug_def)

text \<open>
  Claim C4, as amended. Under a policy without constraints the bug is valid and there
  are no errors, for every bug and every list of dependents; there are no validations
  when the list of dependents is empty, and otherwise the one validation that records
  that the bug has dependents.
\<close>

theorem validateBug_no_constraints:
  assumes "BugzillaBranchOptions.IsOpen options = None"
    and "BugzillaBranchOptions.TargetRelease options = None"
    and "ValidStates options = None"
    and "DependentBugStates options = None"
    and "DependentBugTargetRelease options = None"
  shows "validateBug x bug dependents options endpoint =
      (True, if dependents = [] then [] else [''bug has dependents''], [])"
  using assms
  by (simp add: validateBug_def checkIsOpen_def checkTargetRelease_def checkValidStates_def
      checkDependents_def)

text \<open>The empty policy on a bug without dependents.\<close>

theorem validateBug_no_constraints_witness:
  "validateBug sampleExternals sampleBug [] noOptions ''https://bz'' = (True, [], [])"
  using validateBug_no_constraints
    [of noOptions sampleExternals sampleBug "[]" "''https://bz''"]
  by (simp add: noOptions_def)

text \<open>Claim C4 as it is stated fails: under the empty policy, a bug with one dependent
  has one validation.\<close>

theorem validateBug_no_constraints_counterexample:
  "BugzillaBranchOptions.IsOpen noOptions = None \<and>
   BugzillaBranchOptions.TargetRelease noOptions = None \<and>
   ValidStates noOptions = None \<and>
   DependentBugStates noOptions = None \<and>
   DependentBugTargetRelease noOptions = None \<and>
   validateBug sampleExternals sampleBug [sampleBug] noOptions ''https://bz''
     = (True, [''bug has dependents''], [])"
  by (simp add: noOptions_def validateBug_def checkIsOpen_def checkTargetRelease_def
      checkValidStates_def checkDependents_def)

text \<open>
  Claim C5. Whatever the bug, the dependents and the policy, a verdict that is valid
  carries no errors.
\<close>

theorem validateBug_never_valid_with_errors:
  "validateBug x bug dependents options endpoint = (valid, validations, errors) \<Longrightarrow>
     valid \<Longrightarrow> errors = []"
  using validateBug_consistent [of x bug dependents options endpoint]
  by (simp add: consistent_def)

text \<open>An open bug under a policy that requires open bugs.\<close>

theorem validateBug_never_valid_with_errors_witness:
  "\<exists>validations.
     validateBug sampleExternals sampleBug [] (noOptions\<lparr>IsOpen := Some True\<rparr>) ''https://bz''
     = (True, validations, [])"
proof -
  obtain valid validations errors where v:
    "validateBug sampleExternals sampleBug [] (noOptions\<lparr>IsOpen := Some True\<rparr>) ''https://bz''
     = (valid, validations, errors)"
    using prod_cases3 by blast
  have "fst (validateBug sampleExternals sampleBug [] (noOptions\<lparr>IsOpen := Some True\<rparr>)
      ''https://bz'')"
    by (simp add: validateBug_def checkIsOpen_def checkTargetRelease_def checkValidStates_def
        checkDependents_def noOptions_def sampleBug_def)
  with v have valid by simp
  with v validateBug_never_valid_with_errors [OF v] show ?thesis by simp
qed

section \<open>Properties of the label reconciliation\<close>

text \<open>
  Claim C6. Whatever labels the review host reports and whatever presence of the two
  labels is needed, one pass makes, after reading the labels, at most one call for each
  label: an add or a remove, and only when the presence of that label differs from the
  needed one. When the two label names differ and a second pass reads the labels that
  result from the calls of the first, it makes no add and no remove call.
\<close>

theorem reconcileLabels_idempotent:
  assumes "ValidBug x \<noteq> InvalidBug x"
    and "GetIssueLabels gc (org e) (repo e) (number e) = (labels, err)"
    and "GetIssueLabels gc' (org e) (repo e) (number e) =
      (applyLabelCalls labels (reconcileLabels x e gc needsValidLabel needsInvalidLabel), err')"
  shows "reconcileLabels x e gc needsValidLabel needsInvalidLabel =
      GetIssueLabelsCall (org e) (repo e) (number e)
      # (if needsValidLabel = (ValidBug x \<in> set labels) then []
         else if needsValidLabel then [AddLabelCall (org e) (repo e) (number e) (ValidBug x)]
         else [RemoveLabelCall (org e) (repo e) (number e) (ValidBug x)])
      @ (if needsInvalidLabel = (InvalidBug x \<in> set labels) then []
         else if needsInvalidLabel then [AddLabelCall (org e) (repo e) (number e) (InvalidBug x)]
         else [RemoveLabelCall (org e) (repo e) (number e) (InvalidBug x)])
    \<and> filter isLabelCall (reconcileLabels x e gc' needsValidLabel needsInvalidLabel) = []"
proof -
  have first: "reconcileLabels x e gc needsValidLabel needsInvalidLabel =
      GetIssueLabelsCall (org e) (repo e) (number e)
      # (if needsValidLabel = (ValidBug x \<in> set labels) then []
         else if needsValidLabel then [AddLabelCall (org e) (repo e) (number e) (ValidBug x)]
         else [RemoveLabelCall (org e) (repo e) (number e) (ValidBug x)])
      @ (if needsInvalidLabel = (InvalidBug x \<in> set labels) then []
         else if needsInvalidLabel then [AddLabelCall (org e) (repo e) (number e) (InvalidBug x)]
         else [RemoveLabelCall (org e) (repo e) (number e) (InvalidBug x)])"
    using assms(2) by (auto simp: reconcileLabels_def)
  let ?after = "applyLabelCalls labels (reconcileLabels x e gc needsValidLabel needsInvalidLabel)"
  have valid: "(ValidBug x \<in> set ?after) = needsValidLabel"
    unfolding first using assms(1) by (auto simp: applyLabelCalls_def)
  have invalid: "(InvalidBug x \<in> set ?after) = needsInvalidLabel"
    unfolding first using assms(1) by (auto simp: applyLabelCalls_def)
  have "reconcileLabels x e gc' needsValidLabel needsInvalidLabel =
      [GetIssueLabelsCall (org e) (repo e) (number e)]"
    using assms(3) valid invalid by (simp add: reconcileLabels_def)
  with first show ?thesis by simp
qed

text \<open>A pull request that carries the invalid label when its bug has become valid.\<close>

theorem reconcileLabels_idempotent_witness:
  "reconcileLabels sampleExternals sampleEvent (sampleGithub [''bugzilla/invalid-bug'']) True False
     = [GetIssueLabelsCall ''org'' ''repo'' 7,
        AddLabelCall ''org'' ''repo'' 7 ''bugzilla/valid-bug'',
        RemoveLabelCall ''org'' ''repo'' 7 ''bugzilla/invalid-bug''] \<and>
   filter isLabelCall
     (reconcileLabels sampleExternals sampleEvent (sampleGithub [''bugzilla/valid-bug'']) True False)
     = []"
proof -
  have first: "reconcileLabels sampleExternals sampleEvent (sampleGithub [''bugzilla/invalid-bug''])
      True False
     = [GetIssueLabelsCall ''org'' ''repo'' 7,
        AddLabelCall ''org'' ''repo'' 7 ''bugzilla/valid-bug'',
        RemoveLabelCall ''org'' ''repo'' 7 ''bugzilla/invalid-bug'']"
    by (simp add: reconcileLabels_def sampleExternals_def sampleEvent_def sampleGithub_def)
  have "ValidBug sampleExternals \<noteq> InvalidBug sampleExternals"
    by (simp add: sampleExternals_def)
  moreover have "GetIssueLabels (sampleGithub [''bugzilla/invalid-bug''])
      (org sampleEvent) (repo sampleEvent) (number sampleEvent)
      = ([''bugzilla/invalid-bug''], None)"
    by (simp add: sampleGithub_def)
  moreover have "GetIssueLabels (sampleGithub [''bugzilla/valid-bug''])
      (org sampleEvent) (repo sampleEvent) (number sampleEvent)
      = (applyLabelCalls [''bugzilla/invalid-bug'']
           (reconcileLabels sampleExternals sampleEvent (sampleGithub [''bugzilla/invalid-bug''])
              True False), None)"
    unfolding first by (simp add: sampleGithub_def applyLabelCalls_def)
  ultimately show ?thesis
    using reconcileLabels_idempotent
      [of sampleExternals "sampleGithub [''bugzilla/invalid-bug'']" sampleEvent
        "[''bugzilla/invalid-bug'']" None "sampleGithub [''bugzilla/valid-bug'']" True False None]
      first
    by simp
qed

section \<open>The calls of each block\<close>

lemma comment_eq: "comment x gc e reply = ([replyCall x e reply], replyResult x gc e reply)"
  by (simp add: comment_def replyCall_def replyResult_def Let_def)

lemma replyCall_kind [simp]:
  "isCreateCommentCall (replyCall x e reply)" "\<not> isUpdateBugCall (replyCall x e reply)"
  "\<not> isQueryCall (replyCall x e reply)" "\<not> isLabelCall (replyCall x e reply)"
  by (simp_all add: replyCall_def)

lemma replyCall_assign [simp]: "replyCall x (e\<lparr>assign := b\<rparr>) reply = replyCall x e reply"
  by (simp add: replyCall_def)

lemma replyResult_assign [simp]:
  "replyResult x gc (e\<lparr>assign := b\<rparr>) reply = replyResult x gc e reply"
  by (simp add: replyResult_def)

lemma comment_assign [simp]: "comment x gc (e\<lparr>assign := b\<rparr>) = comment x gc e"
  by (rule ext) (simp add: comment_eq)

text \<open>The three ways in which \<^verbatim>\<open>getBug\<close> ends.\<close>

lemma getBug_cases:
  obtains (failed) reply where
      "getBug x bc i (comment x gc e) = ([GetBugCall i, replyCall x e reply], None,
         replyResult x gc e reply)"
  | (found) bug where "getBug x bc i (comment x gc e) = ([GetBugCall i], Some bug, None)"
proof (cases "GetBug bc i")
  case (Pair bug err)
  show ?thesis
  proof (cases "err \<noteq> None \<and> \<not> IsNotFound x err")
    case True
    with Pair have "getBug x bc i (comment x gc e) =
        ([GetBugCall i, replyCall x e (formatError ''searching'' (Endpoint bc) i err)], None,
         replyResult x gc e (formatError ''searching'' (Endpoint bc) i err))"
      by (simp add: getBug_def comment_eq)
    then show ?thesis by (rule failed)
  next
    case False
    show ?thesis
    proof (cases "IsNotFound x err \<or> bug = None")
      case True
      with Pair False have "\<exists>reply. getBug x bc i (comment x gc e) =
          ([GetBugCall i, replyCall x e reply], None, replyResult x gc e reply)"
        by (auto simp: getBug_def comment_eq)
      then show ?thesis using failed by blast
    next
      case no: False
      then obtain b where "bug = Some b" by auto
      with Pair False no have "getBug x bc i (comment x gc e) = ([GetBugCall i], Some b, None)"
        by (simp add: getBug_def)
      then show ?thesis by (rule found)
    qed
  qed
qed

lemma getBug_failure:
  assumes "GetBug bc i = (bug, Some err)" and "\<not> IsNotFound x (Some err)"
  shows "getBug x bc i (comment x gc e) =
      ([GetBugCall i, replyCall x e (formatError ''searching'' (Endpoint bc) i (Some err))], None,
       replyResult x gc e (formatError ''searching'' (Endpoint bc) i (Some err)))"
  using assms by (simp add: getBug_def comment_eq)

lemma fetchDependents_calls:
  "fetchDependents bc ids = (ds, r) \<Longrightarrow> c \<in> set ds \<Longrightarrow> \<exists>i. c = GetBugCall i"
proof (induction ids arbitrary: ds r)
  case Nil
  then show ?case by simp
next
  case (Cons i ids)
  obtain ds' r' where rest: "fetchDependents bc ids = (ds', r')"
    by (cases "fetchDependents bc ids")
  from Cons.prems rest have "c = GetBugCall i \<or> c \<in> set ds'"
    by (auto split: prod.splits option.splits sum.splits)
  with Cons.IH [OF rest] show ?case by blast
qed

text \<open>Which calls each block of \<^verbatim>\<open>handle\<close> and \<^verbatim>\<open>handleMerge\<close> can make.\<close>

lemma fetchBug_calls:
  assumes "fetchBug x e gc bc options = (cs, r)" and "c \<in> set cs"
  shows "\<not> isUpdateBugCall c \<and> \<not> isQueryCall c \<and> \<not> isLabelCall c"
proof (cases rule: getBug_cases [of x bc "bugId e" gc e])
  case (failed reply)
  with assms show ?thesis by (auto simp: fetchBug_def)
next
  case (found bug)
  obtain ds r' where deps: "fetchDependents bc (DependsOn bug) = (ds, r')"
    by (cases "fetchDependents bc (DependsOn bug)")
  from assms found deps have "c = GetBugCall (bugId e) \<or> c \<in> set ds \<or> isCreateCommentCall c"
    by (auto simp: fetchBug_def comment_eq split: if_splits option.splits sum.splits)
  with fetchDependents_calls [OF deps, of c] show ?thesis
    by (cases c) auto
qed

lemma fetchBug_found_calls:
  assumes "fetchBug x e gc bc options = (cs, Inr found)" and "c \<in> set cs"
  shows "\<exists>i. c = GetBugCall i"
proof (cases rule: getBug_cases [of x bc "bugId e" gc e])
  case (failed reply)
  with assms show ?thesis by (auto simp: fetchBug_def)
next
  case (found bug)
  obtain ds r' where deps: "fetchDependents bc (DependsOn bug) = (ds, r')"
    by (cases "fetchDependents bc (DependsOn bug)")
  from assms found deps have "c = GetBugCall (bugId e) \<or> c \<in> set ds"
    by (auto simp: fetchBug_def comment_eq split: if_splits option.splits sum.splits)
  with fetchDependents_calls [OF deps, of c] show ?thesis
    by auto
qed

lemma fetchBug_assign [simp]:
  "fetchBug x (e\<lparr>assign := b\<rparr>) gc bc options = fetchBug x e gc bc options"
  by (simp add: fetchBug_def cong: prod.case_cong option.case_cong sum.case_cong if_cong)

lemma advanceBug_assign [simp]:
  "advanceBug x (e\<lparr>assign := b\<rparr>) gc bc options bug = advanceBug x e gc bc options bug"
  by (simp add: advanceBug_def Let_def
      cong: prod.case_cong option.case_cong sum.case_cong if_cong)

lemma reconcileLabels_assign [simp]:
  "reconcileLabels x (e\<lparr>assign := b\<rparr>) gc v i = reconcileLabels x e gc v i"
  by (simp add: reconcileLabels_def Let_def cong: prod.case_cong if_cong)

lemma reconcileLabels_calls:
  "c \<in> set (reconcileLabels x e gc v i) \<Longrightarrow>
     \<not> isUpdateBugCall c \<and> \<not> isQueryCall c \<and> \<not> isCreateCommentCall c"
  by (auto simp: reconcileLabels_def Let_def split: prod.splits if_splits)

lemma finish_eq:
  "finish x e gc v i response =
     (reconcileLabels x e gc v i @ [replyCall x e response], Return (replyResult x gc e response))"
  by (simp add: finish_def comment_eq)

text \<open>\<^verbatim>\<open>advanceBug\<close> makes at most an update, a link and a comment, in this order.\<close>

lemma advanceBug_calls:
  assumes "advanceBug x e gc bc options bug = (ca, r)" and "c \<in> set ca"
  shows "\<not> isQueryCall c \<and> \<not> isLabelCall c"
  using assms
  by (auto simp: advanceBug_def comment_eq Let_def
      split: option.splits sum.splits if_splits prod.splits)




lemma assignQA_off:
  "\<not> assign e \<Longrightarrow> assignQA x e gc bc bug response = ([], Inr response)"
  by (simp add: assignQA_def)

lemma assignQA_no_contact:
  assumes "assign e"
    and "QAContactDetail bug = None \<or> (\<exists>detail. QAContactDetail bug = Some detail \<and> Email detail = [])"
  shows "assignQA x e gc bc bug response =
      ([], Inr (response @
         (if QAContactDetail bug = None
          then bugLink (bugId e) (Endpoint bc) (bugId e)
               @ '' does not have a QA contact, skipping assignment''
          else ''QA contact for '' @ bugLink (bugId e) (Endpoint bc) (bugId e)
               @ '' does not have a listed email, skipping assignment'')))"
  using assms by (auto simp: assignQA_def)



lemma mergeGuard_fetch_failure:
  assumes "ValidStates options \<noteq> None \<or> StateAfterValidation options \<noteq> None"
    and "GetBug bc (bugId e) = (bug, Some err)" and "\<not> IsNotFound x (Some err)"
  shows "mergeGuard x e gc bc options =
      ([GetBugCall (bugId e),
        replyCall x e (formatError ''searching'' (Endpoint bc) (bugId e) (Some err))],
       Inl (Return (replyResult x gc e
          (formatError ''searching'' (Endpoint bc) (bugId e) (Some err)))))"
  using assms(1) getBug_failure [OF assms(2,3), of gc e]
  by (auto simp: mergeGuard_def)











section \<open>Failures of the tracker\<close>







section \<open>The QA assignment\<close>

lemma advanceBug_response_calls:
  assumes "advanceBug x e gc bc options bug = (ca, Inr response)" and "c \<in> set ca"
  shows "\<not> isQueryCall c \<and> \<not> isLabelCall c \<and> \<not> isCreateCommentCall c"
  using assms
  by (auto simp: advanceBug_def comment_eq Let_def
      split: option.splits sum.splits if_splits prod.splits)

lemma filter_none: "(\<And>c. c \<in> set cs \<Longrightarrow> \<not> P c) \<Longrightarrow> filter P cs = []"
  by (induction cs) auto

text \<open>
  Claim C10. On a run with the assign flag that reaches the QA block with a valid bug
  whose record has no QA contact, or a QA contact with an empty email, no query is
  made; the run is the run without the flag, with the same label calls, except that the
  comment ends with the note that the assignment is skipped.
\<close>

theorem assign_without_contact_skips_query:
  assumes "assign e" and "\<not> merged e" and "\<not> missing e"
    and "fetchBug x e gc bc options = (cs, Inr (bug, dependents))"
    and "validateBug x bug dependents options (Endpoint bc) = (True, validationsRun, why)"
    and "advanceBug x e gc bc options bug = (ca, Inr response)"
    and "QAContactDetail bug = None \<or>
         (\<exists>detail. QAContactDetail bug = Some detail \<and> Email detail = [])"
  shows "\<exists>before verdictText note.
      handle x (e\<lparr>assign := False\<rparr>) gc bc options =
        (before @ [replyCall x e verdictText], Return (replyResult x gc e verdictText)) \<and>
      handle x e gc bc options =
        (before @ [replyCall x e (verdictText @ note)],
         Return (replyResult x gc e (verdictText @ note))) \<and>
      (\<forall>c \<in> set before. \<not> isQueryCall c) \<and>
      filter isLabelCall before = filter isLabelCall (reconcileLabels x e gc True False) \<and>
      note =
        (if QAContactDetail bug = None
         then bugLink (bugId e) (Endpoint bc) (bugId e)
              @ '' does not have a QA contact, skipping assignment''
         else ''QA contact for '' @ bugLink (bugId e) (Endpoint bc) (bugId e)
              @ '' does not have a listed email, skipping assignment'')"
proof -
  let ?before = "cs @ ca @ reconcileLabels x e gc True False"
  let ?text = "response @ validationDetails validationsRun"
  let ?note = "if QAContactDetail bug = None
         then bugLink (bugId e) (Endpoint bc) (bugId e)
              @ '' does not have a QA contact, skipping assignment''
         else ''QA contact for '' @ bugLink (bugId e) (Endpoint bc) (bugId e)
              @ '' does not have a listed email, skipping assignment''"
  have plain: "handle x (e\<lparr>assign := False\<rparr>) gc bc options =
      (?before @ [replyCall x e ?text], Return (replyResult x gc e ?text))"
    using assms(2-6) by (simp add: handle_def assignQA_off finish_eq)
  have qa: "assignQA x e gc bc bug ?text = ([], Inr (?text @ ?note))"
    using assignQA_no_contact [OF assms(1,7)] by simp
  have asked: "handle x e gc bc options =
      (?before @ [replyCall x e (?text @ ?note)], Return (replyResult x gc e (?text @ ?note)))"
    using assms(2-6) qa by (simp add: handle_def finish_eq)
  have cs: "\<not> isQueryCall c \<and> \<not> isLabelCall c" if "c \<in> set cs" for c
    using fetchBug_calls [OF assms(4) that] by simp
  have ca: "\<not> isQueryCall c \<and> \<not> isLabelCall c" if "c \<in> set ca" for c
    using advanceBug_response_calls [OF assms(6) that] by simp
  have quiet: "\<forall>c \<in> set ?before. \<not> isQueryCall c"
    using cs ca reconcileLabels_calls [of _ x e gc True False] by auto
  have labels: "filter isLabelCall ?before = filter isLabelCall (reconcileLabels x e gc True False)"
    using cs ca by (simp add: filter_none)
  from plain asked quiet labels show ?thesis by blast
qed

text \<open>Bug 1234 has no QA contact.\<close>

theorem assign_without_contact_skips_query_witness:
  "\<exists>before verdictText.
      handle sampleExternals sampleEvent (sampleGithub []) (sampleBugzilla []) noOptions =
        (before @ [replyCall sampleExternals sampleEvent verdictText], Return None) \<and>
      handle sampleExternals (sampleEvent\<lparr>assign := True\<rparr>) (sampleGithub [])
          (sampleBugzilla []) noOptions =
        (before @ [replyCall sampleExternals sampleEvent
            (verdictText @ bugLink 1234 ''https://bz'' 1234
               @ '' does not have a QA contact, skipping assignment'')],
         Return None) \<and>
      (\<forall>c \<in> set before. \<not> isQueryCall c)"
proof -
  let ?e = "sampleEvent\<lparr>assign := True\<rparr>"
  have e: "assign ?e" "\<not> merged ?e" "\<not> missing ?e" "?e\<lparr>assign := False\<rparr> = sampleEvent"
    "bugId ?e = 1234"
    by (simp_all add: sampleEvent_def)
  have fetch: "fetchBug sampleExternals ?e (sampleGithub []) (sampleBugzilla []) noOptions
      = ([GetBugCall 1234], Inr (sampleBug, []))"
    by (simp add: fetchBug_def getBug_def sampleBugzilla_def sampleExternals_def noOptions_def
        sampleEvent_def)
  have verdict: "validateBug sampleExternals sampleBug [] noOptions
      (Endpoint (sampleBugzilla [])) = (True, [], [])"
    by (simp add: validateBug_def checkIsOpen_def checkTargetRelease_def checkValidStates_def
        checkDependents_def noOptions_def)
  have adv: "advanceBug sampleExternals ?e (sampleGithub []) (sampleBugzilla []) noOptions sampleBug
      = ([], Inr (''This pull request references '' @ bugLink 1234 ''https://bz'' 1234
           @ '', which is valid.''))"
    by (simp add: advanceBug_def sampleExternals_def noOptions_def sampleBugzilla_def
        sampleEvent_def)
  have qa: "QAContactDetail sampleBug = None \<or>
      (\<exists>detail. QAContactDetail sampleBug = Some detail \<and> Email detail = [])"
    by (simp add: sampleBug_def)
  have answer: "replyResult sampleExternals (sampleGithub []) ?e reply = None" for reply
    by (simp add: replyResult_def sampleGithub_def)
  have bz: "Endpoint (sampleBugzilla []) = ''https://bz''"
    by (simp add: sampleBugzilla_def)
  from assign_without_contact_skips_query [OF e(1-3) fetch verdict adv qa]
  show ?thesis
    unfolding e(4,5) answer bz by (auto simp: qa sampleBug_def)
qed

section \<open>Properties of the merge path\<close>





end
